theory Spec2Isabelle
  imports Main "HOL-Library.Multiset"
begin

section \<open>ERPRO: the storage layer (server/storage.ts) and the person routes\<close>

text \<open>
  The storage class \<^verbatim>\<open>DatabaseStorage\<close> talks to PostgreSQL through the drizzle-orm
  query builder. The embedding has three layers: the rows of the tables as
  \<^verbatim>\<open>shared/schema.ts\<close> declares them, the part of the query builder the storage methods
  call, and the storage methods and route handlers themselves, written call by call as
  in the source. Clock readings (\<^verbatim>\<open>new Date()\<close>, the column default \<^verbatim>\<open>now()\<close>) are an
  explicit argument of every operation that takes one.
\<close>

subsection \<open>Rows (shared/schema.ts)\<close>

text \<open>
  A \<^verbatim>\<open>timestamp\<close> is a number of milliseconds since the epoch, a \<^verbatim>\<open>date\<close> column a number
  of days since the epoch (the source compares dates only through \<^verbatim>\<open><=\<close> and \<^verbatim>\<open>>=\<close>).
  A nullable column is an option, \<open>None\<close> being SQL's NULL. The flag \<^verbatim>\<open>is_active\<close> is
  declared \<^verbatim>\<open>boolean("is_active").default(true)\<close> without \<^verbatim>\<open>notNull()\<close>, so it is nullable.
  \<^verbatim>\<open>created_at\<close> and \<^verbatim>\<open>updated_at\<close> have the default \<^verbatim>\<open>now()\<close> and are left out of every
  insert schema, and the source reads them with a non-null assertion
  (\<^verbatim>\<open>pessoa.createdAt!\<close>): they are modelled as always set.

  Of table \<^verbatim>\<open>pessoas\<close> the record keeps the columns that the storage methods read or
  write by name; the other columns (birth date, address, ...) are plain data that no
  method below inspects.
\<close>

type_synonym timestamp = int
type_synonym date = int

record pessoa =
  p_id :: int
  p_nome :: string
  p_cpf :: string
  p_tipoPessoa :: string
  p_isActive :: "bool option"
  p_createdAt :: timestamp
  p_updatedAt :: timestamp

record afastamento =
  a_id :: int
  a_pessoaId :: int
  a_dataInicio :: date
  a_dataFim :: "date option"
  a_isActive :: "bool option"
  a_createdAt :: timestamp

record diaria =
  d_id :: int
  d_pessoaId :: int
  d_statusId :: int
  d_destino :: string
  d_isActive :: "bool option"
  d_createdAt :: timestamp

record armamento =
  w_id :: int
  w_situacao :: "string option"
  w_isActive :: "bool option"
  w_createdAt :: timestamp

text \<open>
  The database: the four tables the methods below query, and the identity sequence
  behind \<^verbatim>\<open>pessoas.id\<close> (\<^verbatim>\<open>generatedByDefaultAsIdentity\<close>).
\<close>

record db =
  pessoas :: "pessoa list"
  pessoas_seq :: int
  afastamentos :: "afastamento list"
  diarias :: "diaria list"
  armamentos :: "armamento list"

text \<open>
  \<^verbatim>\<open>InsertPessoa\<close> is the table's insert shape without \<^verbatim>\<open>id\<close>, \<^verbatim>\<open>createdAt\<close> and
  \<^verbatim>\<open>updatedAt\<close>. \<^verbatim>\<open>isActive\<close> stays in it: absent (\<open>None\<close>, the default applies), or
  given as null, false or true. \<^verbatim>\<open>Partial<InsertPessoa>\<close> makes every field optional.
\<close>

record insert_pessoa =
  i_nome :: string
  i_cpf :: string
  i_tipoPessoa :: string
  i_isActive :: "bool option option"

record partial_insert_pessoa =
  u_nome :: "string option"
  u_cpf :: "string option"
  u_tipoPessoa :: "string option"
  u_isActive :: "bool option option"

text \<open>
  The stores the storage layer works on. \<^verbatim>\<open>shared/schema.ts\<close> makes \<^verbatim>\<open>id\<close> the primary
  key of \<^verbatim>\<open>pessoas\<close> and declares \<^verbatim>\<open>cpf\<close> \<^verbatim>\<open>.unique()\<close>, and PostgreSQL never holds a table
  that breaks either. Ids come from the identity sequence only (\<^verbatim>\<open>InsertPessoa\<close> has no
  \<^verbatim>\<open>id\<close>), so the sequence is ahead of every stored id. The mutators below keep all
  three (lemmas \<open>db_ok_createPessoa\<close>, \<open>db_ok_updatePessoa\<close>, \<open>db_ok_deletePessoa\<close>,
  \<open>db_ok_post_pessoas\<close>).
\<close>

definition db_ok :: "db \<Rightarrow> bool" where
  "db_ok s = (distinct (map p_id (pessoas s)) \<and> distinct (map p_cpf (pessoas s))
              \<and> list_all (\<lambda>r. p_id r < pessoas_seq s) (pessoas s))"

datatype db_error = UniqueViolation string

subsection \<open>SQL conditions, three-valued\<close>

text \<open>
  A condition maps a row to true, false or unknown (\<open>None\<close>); a \<^verbatim>\<open>WHERE\<close> keeps the rows
  on which it is true. A column is a function from the row to an optional value.
\<close>

type_synonym 'r cond = "'r \<Rightarrow> bool option"

definition notNull :: "('r \<Rightarrow> 'v) \<Rightarrow> 'r \<Rightarrow> 'v option" where
  "notNull f = (\<lambda>r. Some (f r))"

definition eq_col :: "('r \<Rightarrow> 'v option) \<Rightarrow> 'v \<Rightarrow> 'r cond" where
  "eq_col c v = (\<lambda>r. map_option (\<lambda>x. x = v) (c r))"

definition lte_col :: "('r \<Rightarrow> int option) \<Rightarrow> int \<Rightarrow> 'r cond" where
  "lte_col c v = (\<lambda>r. map_option (\<lambda>x. x \<le> v) (c r))"

definition gte_col :: "('r \<Rightarrow> int option) \<Rightarrow> int \<Rightarrow> 'r cond" where
  "gte_col c v = (\<lambda>r. map_option (\<lambda>x. v \<le> x) (c r))"

definition is_null :: "('r \<Rightarrow> 'v option) \<Rightarrow> 'r cond" where
  "is_null c = (\<lambda>r. Some (c r = None))"

fun and3 :: "bool option \<Rightarrow> bool option \<Rightarrow> bool option" where
  "and3 (Some False) _ = Some False"
| "and3 _ (Some False) = Some False"
| "and3 (Some True) (Some True) = Some True"
| "and3 _ _ = None"

fun or3 :: "bool option \<Rightarrow> bool option \<Rightarrow> bool option" where
  "or3 (Some True) _ = Some True"
| "or3 _ (Some True) = Some True"
| "or3 (Some False) (Some False) = Some False"
| "or3 _ _ = None"

text \<open>\<^verbatim>\<open>and(c1, c2, ...)\<close> and an SQL \<^verbatim>\<open>OR\<close> of two conditions.\<close>

definition and_sql :: "'r cond list \<Rightarrow> 'r cond" where
  "and_sql cs = (\<lambda>r. foldr (\<lambda>c acc. and3 (c r) acc) cs (Some True))"

definition or_sql :: "'r cond \<Rightarrow> 'r cond \<Rightarrow> 'r cond" where
  "or_sql c1 c2 = (\<lambda>r. or3 (c1 r) (c2 r))"

text \<open>
  \<^verbatim>\<open>LIKE\<close>: in the pattern \<^verbatim>\<open>%\<close> stands for any run of characters, \<^verbatim>\<open>_\<close> for any one
  character, and a backslash takes the next character literally. The first argument is
  the pattern, the second the text. (PostgreSQL rejects a pattern that ends in a lone
  backslash; here that pattern matches nothing. The one pattern the source builds ends
  in \<^verbatim>\<open>%\<close>.)
\<close>

fun like_match :: "string \<Rightarrow> string \<Rightarrow> bool" where
  "like_match [] s = (s = [])"
| "like_match (c # p) s =
     (if c = CHR ''%'' then
        (like_match p s \<or> (case s of [] \<Rightarrow> False | _ # s' \<Rightarrow> like_match (c # p) s'))
      else if c = CHR ''_'' then
        (case s of [] \<Rightarrow> False | _ # s' \<Rightarrow> like_match p s')
      else if c = CHR 0x5C then
        (case p of [] \<Rightarrow> False
         | e # p' \<Rightarrow> (case s of [] \<Rightarrow> False | x # s' \<Rightarrow> x = e \<and> like_match p' s'))
      else
        (case s of [] \<Rightarrow> False | x # s' \<Rightarrow> x = c \<and> like_match p s'))"

definition like_col :: "('r \<Rightarrow> string option) \<Rightarrow> string \<Rightarrow> 'r cond" where
  "like_col c pat = (\<lambda>r. map_option (like_match pat) (c r))"

subsection \<open>The select builder of drizzle-orm\<close>

text \<open>
  \<^verbatim>\<open>db.select().from(t)\<close> creates a builder object with a configuration; \<^verbatim>\<open>.where(c)\<close>,
  \<^verbatim>\<open>.orderBy(desc(col))\<close> and \<^verbatim>\<open>.limit(n)\<close> each store their argument in the
  configuration and return the builder; awaiting the builder runs the query. The
  configuration has one slot per clause, as an SQL \<^verbatim>\<open>SELECT\<close> has one \<^verbatim>\<open>WHERE\<close>: the
  library's \<^verbatim>\<open>where\<close> is the assignment \<^verbatim>\<open>this.config.where = where\<close>, so a second call
  replaces the condition of the first and does not add to it.

  Every \<^verbatim>\<open>orderBy\<close> of the source is \<^verbatim>\<open>desc\<close> of one non-null column, so the slot holds that
  column. Rows with equal keys come in an order SQL leaves open; the model keeps the
  table's order among them.
\<close>

record 'r select_builder =
  config_table :: "'r list"
  config_where :: "'r cond option"
  config_orderBy :: "('r \<Rightarrow> int) option"
  config_limit :: "nat option"

definition select_from :: "'r list \<Rightarrow> 'r select_builder" where
  "select_from t =
     \<lparr>config_table = t, config_where = None, config_orderBy = None, config_limit = None\<rparr>"

definition where_q :: "'r cond \<Rightarrow> 'r select_builder \<Rightarrow> 'r select_builder" where
  "where_q c q = q\<lparr>config_where := Some c\<rparr>"

definition orderBy_desc :: "('r \<Rightarrow> int) \<Rightarrow> 'r select_builder \<Rightarrow> 'r select_builder" where
  "orderBy_desc k q = q\<lparr>config_orderBy := Some k\<rparr>"

definition limit_q :: "nat \<Rightarrow> 'r select_builder \<Rightarrow> 'r select_builder" where
  "limit_q n q = q\<lparr>config_limit := Some n\<rparr>"

definition sort_desc :: "('r \<Rightarrow> int) \<Rightarrow> 'r list \<Rightarrow> 'r list" where
  "sort_desc k rs = sort_key (\<lambda>r. - k r) rs"

definition execute :: "'r select_builder \<Rightarrow> 'r list" where
  "execute q =
     (let kept = (case config_where q of
                    None \<Rightarrow> config_table q
                  | Some c \<Rightarrow> filter (\<lambda>r. c r = Some True) (config_table q));
          ordered = (case config_orderBy q of
                       None \<Rightarrow> kept
                     | Some k \<Rightarrow> sort_desc k kept)
      in case config_limit q of None \<Rightarrow> ordered | Some n \<Rightarrow> take n ordered)"

text \<open>\<^verbatim>\<open>select({ count: count() })\<close>: the number of rows the query keeps.\<close>

definition count_rows :: "'r select_builder \<Rightarrow> nat" where
  "count_rows q = length (execute q)"

text \<open>\<^verbatim>\<open>const [x] = await query\<close>: the first row, or \<^verbatim>\<open>undefined\<close>.\<close>

definition first_row :: "'r list \<Rightarrow> 'r option" where
  "first_row rs = (case rs of [] \<Rightarrow> None | r # _ \<Rightarrow> Some r)"

text \<open>
  \<^verbatim>\<open>.leftJoin(t2, on)\<close>: every left row with each right row that matches, or with null
  when none does.
\<close>

definition leftJoin :: "'a list \<Rightarrow> 'b list \<Rightarrow> ('a \<Rightarrow> 'b \<Rightarrow> bool) \<Rightarrow> ('a \<times> 'b option) list" where
  "leftJoin ls rs on =
     concat (map (\<lambda>l. case filter (on l) rs of
                         [] \<Rightarrow> [(l, None)]
                       | ms \<Rightarrow> map (\<lambda>m. (l, Some m)) ms) ls)"

text \<open>JavaScript truthiness of an optional string and of an optional number.\<close>

definition truthy_string :: "string option \<Rightarrow> bool" where
  "truthy_string v = (case v of None \<Rightarrow> False | Some s \<Rightarrow> s \<noteq> [])"

definition truthy_number :: "int option \<Rightarrow> bool" where
  "truthy_number v = (case v of None \<Rightarrow> False | Some n \<Rightarrow> n \<noteq> 0)"

subsection \<open>Persons (DatabaseStorage, storage.ts)\<close>

record pessoa_filters =
  f_nome :: "string option"
  f_cpf :: "string option"
  f_tipoPessoa :: "string option"

text \<open>\<^verbatim>\<open>filters?.nome\<close>: undefined when \<^verbatim>\<open>filters\<close> is.\<close>

definition opt_field :: "('f \<Rightarrow> 'v option) \<Rightarrow> 'f option \<Rightarrow> 'v option" where
  "opt_field g filters = (case filters of None \<Rightarrow> None | Some f \<Rightarrow> g f)"

definition getPessoas :: "db \<Rightarrow> pessoa_filters option \<Rightarrow> pessoa list" where
  "getPessoas s filters =
     (let query = where_q (eq_col p_isActive True) (select_from (pessoas s));
          query = (if truthy_string (opt_field f_nome filters)
                   then where_q (like_col (notNull p_nome)
                                   (''%'' @ the (opt_field f_nome filters) @ ''%'')) query
                   else query);
          query = (if truthy_string (opt_field f_cpf filters)
                   then where_q (eq_col (notNull p_cpf) (the (opt_field f_cpf filters))) query
                   else query);
          query = (if truthy_string (opt_field f_tipoPessoa filters)
                   then where_q (eq_col (notNull p_tipoPessoa)
                                   (the (opt_field f_tipoPessoa filters))) query
                   else query)
      in execute (orderBy_desc p_createdAt query))"

definition getPessoaById :: "db \<Rightarrow> int \<Rightarrow> pessoa option" where
  "getPessoaById s i =
     first_row (execute (where_q (and_sql [eq_col (notNull p_id) i, eq_col p_isActive True])
                           (select_from (pessoas s))))"

definition getPessoaByCpf :: "db \<Rightarrow> string \<Rightarrow> pessoa option" where
  "getPessoaByCpf s cpf =
     first_row (execute (where_q (and_sql [eq_col (notNull p_cpf) cpf, eq_col p_isActive True])
                           (select_from (pessoas s))))"

text \<open>
  \<^verbatim>\<open>db.insert(pessoas).values(pessoa).returning()\<close>: the row gets the next value of the
  identity sequence as its id (the sequence moves on even when the insert fails), the
  column defaults where the payload leaves a column out, and is stored unless its id or
  its cpf is already in the table; then PostgreSQL raises a unique violation, which the
  storage method lets through.
\<close>

definition new_pessoa :: "db \<Rightarrow> timestamp \<Rightarrow> insert_pessoa \<Rightarrow> pessoa" where
  "new_pessoa s now v =
     \<lparr>p_id = pessoas_seq s, p_nome = i_nome v, p_cpf = i_cpf v,
      p_tipoPessoa = i_tipoPessoa v,
      p_isActive = (case i_isActive v of None \<Rightarrow> Some True | Some b \<Rightarrow> b),
      p_createdAt = now, p_updatedAt = now\<rparr>"

definition createPessoa :: "db \<Rightarrow> timestamp \<Rightarrow> insert_pessoa \<Rightarrow> (db_error + pessoa) \<times> db" where
  "createPessoa s now v =
     (let novaPessoa = new_pessoa s now v;
          s1 = s\<lparr>pessoas_seq := pessoas_seq s + 1\<rparr>
      in if p_id novaPessoa \<in> set (map p_id (pessoas s))
           then (Inl (UniqueViolation ''pessoas_pkey''), s1)
         else if p_cpf novaPessoa \<in> set (map p_cpf (pessoas s))
           then (Inl (UniqueViolation ''pessoas_cpf_unique''), s1)
         else (Inr novaPessoa, s1\<lparr>pessoas := pessoas s @ [novaPessoa]\<rparr>))"

text \<open>
  \<^verbatim>\<open>.set({ ...pessoa, updatedAt: new Date() })\<close>: the fields the patch gives, and
  \<^verbatim>\<open>updatedAt\<close> last.
\<close>

definition set_fields :: "partial_insert_pessoa \<Rightarrow> timestamp \<Rightarrow> pessoa \<Rightarrow> pessoa" where
  "set_fields v now r =
     r\<lparr>p_nome := (case u_nome v of None \<Rightarrow> p_nome r | Some x \<Rightarrow> x),
       p_cpf := (case u_cpf v of None \<Rightarrow> p_cpf r | Some x \<Rightarrow> x),
       p_tipoPessoa := (case u_tipoPessoa v of None \<Rightarrow> p_tipoPessoa r | Some x \<Rightarrow> x),
       p_isActive := (case u_isActive v of None \<Rightarrow> p_isActive r | Some x \<Rightarrow> x),
       p_updatedAt := now\<rparr>"

text \<open>
  An update that gives a row the cpf of another row breaks the unique constraint:
  PostgreSQL raises and changes nothing.
\<close>

definition cpf_taken :: "db \<Rightarrow> int \<Rightarrow> partial_insert_pessoa \<Rightarrow> bool" where
  "cpf_taken s i v =
     (case u_cpf v of
        None \<Rightarrow> False
      | Some c \<Rightarrow> list_ex (\<lambda>r. p_id r = i) (pessoas s)
                  \<and> list_ex (\<lambda>r. p_id r \<noteq> i \<and> p_cpf r = c) (pessoas s))"

definition updatePessoa ::
  "db \<Rightarrow> timestamp \<Rightarrow> int \<Rightarrow> partial_insert_pessoa \<Rightarrow> (db_error + pessoa option) \<times> db" where
  "updatePessoa s now i v =
     (if cpf_taken s i v then (Inl (UniqueViolation ''pessoas_cpf_unique''), s)
      else
        (let rows = map (\<lambda>r. if p_id r = i then set_fields v now r else r) (pessoas s)
         in (Inr (first_row (filter (\<lambda>r. p_id r = i) rows)), s\<lparr>pessoas := rows\<rparr>)))"

definition deletePessoa :: "db \<Rightarrow> timestamp \<Rightarrow> int \<Rightarrow> db" where
  "deletePessoa s now i =
     s\<lparr>pessoas := map (\<lambda>r. if p_id r = i
                             then r\<lparr>p_isActive := Some False, p_updatedAt := now\<rparr>
                             else r) (pessoas s)\<rparr>"

subsection \<open>POST /api/pessoas (registerRoutes)\<close>

text \<open>
  The handler runs behind the authentication middleware; it is modelled for a request
  that passed it. \<^verbatim>\<open>insertPessoaSchema.parse(req.body)\<close> either throws a \<^verbatim>\<open>ZodError\<close> or
  returns the payload: the outcome of the parse is the handler's input. The messages are
  the source's, in UTF-8 bytes.
\<close>

datatype 'a parse_result = ZodError "string list" | Parsed 'a

datatype json_body =
  Message string
  | Invalid string "string list"
  | PessoaJson pessoa

record http_response =
  res_status :: nat
  res_body :: json_body

definition msg_dados_invalidos :: string where
  "msg_dados_invalidos = ''Dados inv'' @ [CHR 0xC3, CHR 0xA1] @ ''lidos''"

definition msg_cpf_cadastrado :: string where
  "msg_cpf_cadastrado = ''CPF j'' @ [CHR 0xC3, CHR 0xA1] @ '' cadastrado no sistema''"

definition msg_falha_cadastrar :: string where
  "msg_falha_cadastrar = ''Falha ao cadastrar pessoa''"

definition post_pessoas ::
  "db \<Rightarrow> timestamp \<Rightarrow> insert_pessoa parse_result \<Rightarrow> http_response \<times> db" where
  "post_pessoas s now parsed =
     (case parsed of
        ZodError errors \<Rightarrow>
          (\<lparr>res_status = 400, res_body = Invalid msg_dados_invalidos errors\<rparr>, s)
      | Parsed pessoaData \<Rightarrow>
          (case getPessoaByCpf s (i_cpf pessoaData) of
             Some pessoaExistente \<Rightarrow>
               (\<lparr>res_status = 400, res_body = Message msg_cpf_cadastrado\<rparr>, s)
           | None \<Rightarrow>
               (case createPessoa s now pessoaData of
                  (Inr novaPessoa, s') \<Rightarrow>
                    (\<lparr>res_status = 201, res_body = PessoaJson novaPessoa\<rparr>, s')
                | (Inl error, s') \<Rightarrow>
                    (\<lparr>res_status = 500, res_body = Message msg_falha_cadastrar\<rparr>, s'))))"

subsection \<open>Absences\<close>

record afastamento_filters =
  f_pessoaId :: "int option"
  f_ativo :: "bool option"

definition getAfastamentos :: "db \<Rightarrow> afastamento_filters option \<Rightarrow> afastamento list" where
  "getAfastamentos s filters =
     (let query = where_q (eq_col a_isActive True) (select_from (afastamentos s));
          query = (if truthy_number (opt_field f_pessoaId filters)
                   then where_q (eq_col (notNull a_pessoaId)
                                   (the (opt_field f_pessoaId filters))) query
                   else query)
      in execute (orderBy_desc a_createdAt query))"

subsection \<open>Dashboard\<close>

record dashboard_stats =
  totalServidores :: nat
  afastamentosAtivos :: nat
  diariasPendentes :: nat
  armamentoEmUso :: nat

text \<open>
  \<^verbatim>\<open>new Date().toISOString().split('T')[0]\<close>: the calendar day of the clock reading, in UTC.
\<close>

definition hoje_of :: "timestamp \<Rightarrow> date" where
  "hoje_of now = now div 86400000"

definition getDashboardStats :: "db \<Rightarrow> timestamp \<Rightarrow> dashboard_stats" where
  "getDashboardStats s now =
     (let totalServidoresResult =
            count_rows (where_q (and_sql [eq_col p_isActive True,
                                          eq_col (notNull p_tipoPessoa) ''S''])
                          (select_from (pessoas s)));
          hoje = hoje_of now;
          afastamentosAtivosResult =
            count_rows (where_q (and_sql [eq_col a_isActive True,
                                          lte_col (notNull a_dataInicio) hoje,
                                          or_sql (is_null a_dataFim) (gte_col a_dataFim hoje)])
                          (select_from (afastamentos s)));
          diariasPendentesResult =
            count_rows (where_q (and_sql [eq_col d_isActive True,
                                          eq_col (notNull d_statusId) 1])
                          (select_from (diarias s)));
          armamentoEmUsoResult =
            count_rows (where_q (and_sql [eq_col w_isActive True,
                                          eq_col w_situacao ''EM_USO''])
                          (select_from (armamentos s)))
      in \<lparr>totalServidores = totalServidoresResult,
          afastamentosAtivos = afastamentosAtivosResult,
          diariasPendentes = diariasPendentesResult,
          armamentoEmUso = armamentoEmUsoResult\<rparr>)"

subsection \<open>Recent activities\<close>

record atividade =
  at_id :: int
  at_tipo :: string
  at_descricao :: string
  at_data :: timestamp
  at_pessoaNome :: "string option"

definition pessoa_criada :: "pessoa \<Rightarrow> atividade" where
  "pessoa_criada pessoa =
     \<lparr>at_id = p_id pessoa, at_tipo = ''pessoa_criada'',
      at_descricao = ''Nova pessoa cadastrada: '' @ p_nome pessoa,
      at_data = p_createdAt pessoa, at_pessoaNome = Some (p_nome pessoa)\<rparr>"

text \<open>
  The joined column \<^verbatim>\<open>pessoaNome\<close> is null when no person matches;
  \<^verbatim>\<open>diaria.pessoaNome || undefined\<close> also drops an empty name.
\<close>

definition diaria_criada :: "diaria \<times> pessoa option \<Rightarrow> atividade" where
  "diaria_criada row =
     \<lparr>at_id = d_id (fst row), at_tipo = ''diaria_criada'',
      at_descricao = ''Nova di'' @ [CHR 0xC3, CHR 0xA1] @ ''ria criada para ''
                       @ d_destino (fst row),
      at_data = d_createdAt (fst row),
      at_pessoaNome = (case snd row of
                         None \<Rightarrow> None
                       | Some p \<Rightarrow> if p_nome p = [] then None else Some (p_nome p))\<rparr>"

text \<open>
  \<^verbatim>\<open>atividades.sort((a, b) => b.data.getTime() - a.data.getTime())\<close>: a stable sort,
  later dates first.
\<close>

definition getRecentActivities :: "db \<Rightarrow> atividade list" where
  "getRecentActivities s =
     (let pessoasRecentes =
            execute (limit_q 3 (orderBy_desc p_createdAt
                       (where_q (eq_col p_isActive True) (select_from (pessoas s)))));
          atividades = map pessoa_criada pessoasRecentes;
          diariasRecentes =
            execute (limit_q 2 (orderBy_desc (\<lambda>row. d_createdAt (fst row))
                       (where_q (eq_col (\<lambda>row. d_isActive (fst row)) True)
                          (select_from (leftJoin (diarias s) (pessoas s)
                                          (\<lambda>d p. d_pessoaId d = p_id p))))));
          atividades = atividades @ map diaria_criada diariasRecentes
      in sort_key (\<lambda>a. - at_data a) atividades)"

section \<open>Example stores\<close>

text \<open>Stores and arguments at which the theorems below are evaluated.\<close>

definition empty_db :: db where
  "empty_db = \<lparr>pessoas = [], pessoas_seq = 1, afastamentos = [], diarias = [], armamentos = []\<rparr>"

definition mk_pessoa :: "int \<Rightarrow> string \<Rightarrow> string \<Rightarrow> string \<Rightarrow> bool option \<Rightarrow> timestamp \<Rightarrow> pessoa" where
  "mk_pessoa i nome cpf tipo active t =
     \<lparr>p_id = i, p_nome = nome, p_cpf = cpf, p_tipoPessoa = tipo, p_isActive = active,
      p_createdAt = t, p_updatedAt = t\<rparr>"

text \<open>Three active servidores (S) and two active terceirizados (T).\<close>

definition fixture_3S_2T :: db where
  "fixture_3S_2T = empty_db
     \<lparr>pessoas := [mk_pessoa 1 ''Ana'' ''00000000001'' ''S'' (Some True) 10,
                  mk_pessoa 2 ''Bruno'' ''00000000002'' ''T'' (Some True) 20,
                  mk_pessoa 3 ''Carla'' ''00000000003'' ''S'' (Some True) 30,
                  mk_pessoa 4 ''Davi'' ''00000000004'' ''T'' (Some True) 40,
                  mk_pessoa 5 ''Elisa'' ''00000000005'' ''S'' (Some True) 50],
      pessoas_seq := 6\<rparr>"

text \<open>One person, soft-deleted.\<close>

definition ana_inativa :: pessoa where
  "ana_inativa = mk_pessoa 1 ''Ana'' ''12345678901'' ''S'' (Some False) 10"

definition db_ana_inativa :: db where
  "db_ana_inativa = empty_db \<lparr>pessoas := [ana_inativa], pessoas_seq := 2\<rparr>"

text \<open>An active Ana and a soft-deleted Bruno, both servidores.\<close>

definition db_ana_bruno :: db where
  "db_ana_bruno = empty_db
     \<lparr>pessoas := [mk_pessoa 1 ''Ana'' ''00000000001'' ''S'' (Some True) 10,
                  mk_pessoa 2 ''Bruno'' ''00000000002'' ''S'' (Some False) 20],
      pessoas_seq := 3\<rparr>"

text \<open>
  Payloads of \<^verbatim>\<open>POST /api/pessoas\<close> with the cpf of the soft-deleted Ana and with the cpf
  of the fixture's Ana.
\<close>

definition bia_cpf_12345678901 :: insert_pessoa where
  "bia_cpf_12345678901 =
     \<lparr>i_nome = ''Bia'', i_cpf = ''12345678901'', i_tipoPessoa = ''T'', i_isActive = None\<rparr>"

definition bia_cpf_00000000001 :: insert_pessoa where
  "bia_cpf_00000000001 =
     \<lparr>i_nome = ''Bia'', i_cpf = ''00000000001'', i_tipoPessoa = ''T'', i_isActive = None\<rparr>"







text \<open>
  The fixture with three per-diem requests: one of Ana, a later one of Bruno, and a
  soft-deleted one.
\<close>

definition mk_diaria :: "int \<Rightarrow> int \<Rightarrow> string \<Rightarrow> bool option \<Rightarrow> timestamp \<Rightarrow> diaria" where
  "mk_diaria i pid destino active t =
     \<lparr>d_id = i, d_pessoaId = pid, d_statusId = 1, d_destino = destino, d_isActive = active,
      d_createdAt = t\<rparr>"

definition db_feed :: db where
  "db_feed = fixture_3S_2T
     \<lparr>diarias := [mk_diaria 1 1 ''Recife'' (Some True) 35,
                  mk_diaria 2 2 ''Natal'' (Some True) 45,
                  mk_diaria 3 2 ''Manaus'' (Some False) 60]\<rparr>"

section \<open>Properties\<close>

subsection \<open>Conditions and queries\<close>

lemma and3_True: "and3 a b = Some True \<longleftrightarrow> a = Some True \<and> b = Some True"
  by (induction a b rule: and3.induct) auto

lemma or3_True: "or3 a b = Some True \<longleftrightarrow> a = Some True \<or> b = Some True"
  by (induction a b rule: or3.induct) auto

lemma and_sql_True: "and_sql cs r = Some True \<longleftrightarrow> list_all (\<lambda>c. c r = Some True) cs"
  by (induction cs) (auto simp: and_sql_def and3_True)

lemma eq_col_True: "eq_col c v r = Some True \<longleftrightarrow> c r = Some v"
  by (cases "c r") (auto simp: eq_col_def)

lemma null_or_gte_True:
  "or_sql (is_null c) (gte_col c v) r = Some True
     \<longleftrightarrow> (case c r of None \<Rightarrow> True | Some e \<Rightarrow> v \<le> e)"
  by (cases "c r") (auto simp: or_sql_def is_null_def gte_col_def or3_True)

lemma execute_where: "execute (where_q c (select_from t)) = filter (\<lambda>r. c r = Some True) t"
  by (simp add: execute_def where_q_def select_from_def)

lemma execute_where_order:
  "execute (orderBy_desc k (where_q c (select_from t)))
     = sort_desc k (filter (\<lambda>r. c r = Some True) t)"
  by (simp add: execute_def where_q_def select_from_def orderBy_desc_def)

lemma execute_where_order_limit:
  "execute (limit_q n (orderBy_desc k (where_q c (select_from t))))
     = take n (sort_desc k (filter (\<lambda>r. c r = Some True) t))"
  by (simp add: execute_def where_q_def select_from_def orderBy_desc_def limit_q_def)

text \<open>The second \<^verbatim>\<open>where\<close> on a builder wins.\<close>

lemma where_q_twice: "where_q c2 (where_q c1 q) = where_q c2 q"
  by (simp add: where_q_def)

lemma count_where:
  "count_rows (where_q c (select_from t)) = length (filter (\<lambda>r. c r = Some True) t)"
  by (simp add: count_rows_def execute_where)

lemma length_filter_mset_map:
  "length (filter (\<lambda>x. Q (f x)) xs) = size (filter_mset Q (mset (map f xs)))"
  by (induction xs) auto

subsection \<open>The stores the mutators reach\<close>

lemma db_ok_empty: "db_ok empty_db"
  by (simp add: db_ok_def empty_db_def)

lemma db_ok_createPessoa: "db_ok s \<Longrightarrow> db_ok (snd (createPessoa s now v))"
  by (auto simp: db_ok_def createPessoa_def Let_def new_pessoa_def list_all_iff)

lemma db_ok_deletePessoa: "db_ok s \<Longrightarrow> db_ok (deletePessoa s now i)"
  by (auto simp add: db_ok_def deletePessoa_def list_all_iff comp_def if_distrib [of p_id]
      if_distrib [of p_cpf] cong: if_cong)

subsection \<open>Looking a person up\<close>

lemma first_row_None: "first_row rs = None \<longleftrightarrow> rs = []"
  by (simp add: first_row_def split: list.splits)

lemma getPessoaById_None_iff:
  "getPessoaById s i = None
     \<longleftrightarrow> \<not> list_ex (\<lambda>r. p_id r = i \<and> p_isActive r = Some True) (pessoas s)"
  by (auto simp: getPessoaById_def first_row_None execute_where and_sql_True eq_col_True
      notNull_def list_ex_iff filter_empty_conv)

lemma getPessoaByCpf_None_iff:
  "getPessoaByCpf s c = None
     \<longleftrightarrow> \<not> list_ex (\<lambda>r. p_cpf r = c \<and> p_isActive r = Some True) (pessoas s)"
  by (auto simp: getPessoaByCpf_def first_row_None execute_where and_sql_True eq_col_True
      notNull_def list_ex_iff filter_empty_conv)

lemma createPessoa_rows_unchanged_if_cpf:
  "i_cpf v \<in> p_cpf ` set (pessoas s) \<Longrightarrow> pessoas (snd (createPessoa s now v)) = pessoas s"
  by (auto simp: createPessoa_def Let_def new_pessoa_def)

subsection \<open>Soft delete\<close>

lemma no_active_after_delete:
  "\<not> list_ex (\<lambda>r. p_id r = i \<and> p_isActive r = Some True)
       (map (\<lambda>r. if p_id r = i then r\<lparr>p_isActive := Some False, p_updatedAt := now\<rparr> else r) rs)"
  by (induction rs) simp_all

lemma getPessoaById_deletePessoa: "getPessoaById (deletePessoa s now i) i = None"
  unfolding getPessoaById_None_iff by (simp add: deletePessoa_def no_active_after_delete)

lemma deletePessoa_ids: "map p_id (pessoas (deletePessoa s now i)) = map p_id (pessoas s)"
  by (simp add: deletePessoa_def comp_def if_distrib [of p_id] cong: if_cong)

lemma deletePessoa_row_inactive:
  "i \<in> p_id ` set rs \<Longrightarrow>
     list_ex (\<lambda>r. p_id r = i \<and> p_isActive r = Some False)
       (map (\<lambda>r. if p_id r = i then r\<lparr>p_isActive := Some False, p_updatedAt := now\<rparr> else r) rs)"
  by (induction rs) auto

text \<open>Two deletes in a row leave what one delete at the later time leaves.\<close>

lemma deletePessoa_twice:
  "deletePessoa (deletePessoa s now i) now' i = deletePessoa s now' i"
  by (simp add: deletePessoa_def comp_def cong: if_cong)

subsection \<open>Creating and updating a person\<close>



lemma set_fields_id: "p_id (set_fields v now r) = p_id r"
  by (simp add: set_fields_def)





lemma map_id_update:
  "map p_id (map (\<lambda>r. if p_id r = i then set_fields v now r else r) rs) = map p_id rs"
  by (induction rs) (simp_all add: set_fields_id)

lemma map_cpf_update_None:
  "u_cpf v = None \<Longrightarrow>
     map p_cpf (map (\<lambda>r. if p_id r = i then set_fields v now r else r) rs) = map p_cpf rs"
  by (induction rs) (simp_all add: set_fields_def)

lemma map_cpf_update_Some:
  "u_cpf v = Some c \<Longrightarrow>
     map p_cpf (map (\<lambda>r. if p_id r = i then set_fields v now r else r) rs)
       = map (\<lambda>r. if p_id r = i then c else p_cpf r) rs"
  by (induction rs) (simp_all add: set_fields_def)

lemma distinct_cpf_update:
  "distinct (map p_id rs) \<Longrightarrow> distinct (map p_cpf rs) \<Longrightarrow>
   (\<forall>r\<in>set rs. p_id r \<noteq> i \<longrightarrow> p_cpf r \<noteq> c) \<Longrightarrow>
   distinct (map (\<lambda>r. if p_id r = i then c else p_cpf r) rs)"
proof (induction rs)
  case Nil
  then show ?case by simp
next
  case (Cons a rs)
  then have ih: "distinct (map (\<lambda>r. if p_id r = i then c else p_cpf r) rs)"
    by simp
  from Cons.prems have "(if p_id a = i then c else p_cpf a)
      \<notin> (\<lambda>r. if p_id r = i then c else p_cpf r) ` set rs"
    by (auto simp: image_iff)
  with ih show ?case by simp
qed


lemma db_ok_updatePessoa: "db_ok s \<Longrightarrow> db_ok (snd (updatePessoa s now i v))"
proof (cases "cpf_taken s i v")
  case True
  assume "db_ok s"
  with True show ?thesis by (simp add: updatePessoa_def)
next
  case False
  assume ok: "db_ok s"
  let ?f = "\<lambda>r. if p_id r = i then set_fields v now r else r"
  have rows: "pessoas (snd (updatePessoa s now i v)) = map ?f (pessoas s)"
    and seq: "pessoas_seq (snd (updatePessoa s now i v)) = pessoas_seq s"
    using False by (simp_all add: updatePessoa_def Let_def)
  have ids: "map p_id (map ?f (pessoas s)) = map p_id (pessoas s)"
    by (rule map_id_update)
  have cpfs: "distinct (map p_cpf (map ?f (pessoas s)))"
  proof (cases "u_cpf v")
    case None
    then have "map p_cpf (map ?f (pessoas s)) = map p_cpf (pessoas s)"
      by (rule map_cpf_update_None)
    with ok show ?thesis by (simp add: db_ok_def del: map_map)
  next
    case (Some c)
    show ?thesis
    proof (cases "list_ex (\<lambda>r. p_id r = i) (pessoas s)")
      case True
      with False Some have "\<forall>r\<in>set (pessoas s). p_id r \<noteq> i \<longrightarrow> p_cpf r \<noteq> c"
        by (auto simp: cpf_taken_def list_ex_iff)
      with ok have "distinct (map (\<lambda>r. if p_id r = i then c else p_cpf r) (pessoas s))"
        by (intro distinct_cpf_update) (simp_all add: db_ok_def)
      moreover have "map p_cpf (map ?f (pessoas s))
          = map (\<lambda>r. if p_id r = i then c else p_cpf r) (pessoas s)"
        using Some by (rule map_cpf_update_Some)
      ultimately show ?thesis by (simp del: map_map)
    next
      case False
      then have "map ?f (pessoas s) = pessoas s"
        by (intro map_idI) (auto simp: list_ex_iff)
      with ok show ?thesis by (simp add: db_ok_def)
    qed
  qed
  from ok have "list_all (\<lambda>r. p_id r < pessoas_seq s) (map ?f (pessoas s))"
    by (auto simp: db_ok_def list_all_iff set_fields_id)
  with ok ids cpfs show ?thesis
    by (simp add: db_ok_def rows seq del: map_map)
qed

lemma db_ok_post_pessoas: "db_ok s \<Longrightarrow> db_ok (snd (post_pessoas s now parsed))"
proof -
  assume ok: "db_ok s"
  have "db_ok s'" if "createPessoa s now v = (res, s')" for v res s'
    using db_ok_createPessoa [OF ok, of now v] that by simp
  with ok show ?thesis
    by (auto simp: post_pessoas_def split: parse_result.splits option.splits prod.splits
        sum.splits)
qed

subsection \<open>Ordering, limits and the join\<close>

lemma insort_key_map:
  "insort_key f (g x) (map g ys) = map g (insort_key (\<lambda>y. f (g y)) x ys)"
  by (induction ys) simp_all

lemma sort_key_map: "sort_key f (map g xs) = map g (sort_key (\<lambda>y. f (g y)) xs)"
  by (induction xs) (simp_all add: insort_key_map)

lemma sort_desc_map: "sort_desc k (map g xs) = map g (sort_desc (\<lambda>y. k (g y)) xs)"
  by (simp add: sort_desc_def sort_key_map)

lemma mset_sort_desc: "mset (sort_desc k xs) = mset xs"
  by (simp add: sort_desc_def)

lemma length_sort_desc: "length (sort_desc k xs) = length xs"
  by (simp add: sort_desc_def)

lemma sorted_sort_desc: "sorted_wrt (\<lambda>a b. k b \<le> k a) (sort_desc k xs)"
proof -
  have "sorted (map (\<lambda>r. - k r) (sort_key (\<lambda>r. - k r) xs))"
    by (rule sorted_sort_key)
  then show ?thesis
    by (simp add: sort_desc_def sorted_map)
qed

lemma take_dominates_drop:
  assumes "sorted_wrt (\<lambda>a b. k b \<le> k a) xs"
  shows "\<forall>p\<in>set (take n xs). \<forall>q\<in>set (drop n xs). k q \<le> k p"
proof -
  have "sorted_wrt (\<lambda>a b. k b \<le> k a) (take n xs @ drop n xs)"
    using assms by simp
  then show ?thesis
    unfolding sorted_wrt_append by blast
qed

text \<open>
  \<^verbatim>\<open>ORDER BY k DESC LIMIT n\<close> splits the rows into the \<open>n\<close> it returns and the rest, and no
  row of the rest is newer than a returned one.
\<close>

lemma most_recent_take:
  "mset (take n (sort_desc k xs) @ drop n (sort_desc k xs)) = mset xs
   \<and> length (take n (sort_desc k xs)) = min n (length xs)
   \<and> (\<forall>p\<in>set (take n (sort_desc k xs)). \<forall>q\<in>set (drop n (sort_desc k xs)). k q \<le> k p)"
proof -
  have "sorted_wrt (\<lambda>a b. k b \<le> k a) (sort_desc k xs)"
    by (rule sorted_sort_desc)
  then have "\<forall>p\<in>set (take n (sort_desc k xs)). \<forall>q\<in>set (drop n (sort_desc k xs)). k q \<le> k p"
    by (rule take_dominates_drop)
  then show ?thesis
    by (simp add: mset_sort_desc length_sort_desc min.commute)
qed

text \<open>With \<^verbatim>\<open>pessoas.id\<close> a key, the left join pairs every left row with one person or none.\<close>

lemma matches_at_most_one:
  "distinct (map p_id ps) \<Longrightarrow>
     filter (\<lambda>p. k = p_id p) ps
       = (case find (\<lambda>p. p_id p = k) ps of None \<Rightarrow> [] | Some m \<Rightarrow> [m])"
proof (induction ps)
  case Nil
  then show ?case by simp
next
  case (Cons a ps)
  show ?case
  proof (cases "p_id a = k")
    case True
    with Cons.prems have "filter (\<lambda>p. k = p_id p) ps = []"
      by (auto simp: filter_empty_conv image_iff)
    with True show ?thesis by simp
  next
    case False
    with Cons show ?thesis by auto
  qed
qed

lemma leftJoin_pessoas:
  assumes "distinct (map p_id ps)"
  shows "leftJoin ds ps (\<lambda>d p. d_pessoaId d = p_id p)
           = map (\<lambda>d. (d, find (\<lambda>p. p_id p = d_pessoaId d) ps)) ds"
proof -
  have step: "(case filter (\<lambda>p. d_pessoaId d = p_id p) ps of
           [] \<Rightarrow> [(d, None)] | ms \<Rightarrow> map (\<lambda>m. (d, Some m)) ms)
        = [(d, find (\<lambda>p. p_id p = d_pessoaId d) ps)]" for d
    using matches_at_most_one [OF assms, of "d_pessoaId d"]
    by (simp split: option.splits)
  show ?thesis
    unfolding leftJoin_def step by (induction ds) simp_all
qed

subsection \<open>The activity feed, query by query\<close>

lemma getRecentActivities_eq:
  "getRecentActivities s =
     sort_key (\<lambda>a. - at_data a)
       (map pessoa_criada
          (take 3 (sort_desc p_createdAt (filter (\<lambda>p. p_isActive p = Some True) (pessoas s))))
        @ map diaria_criada
          (take 2 (sort_desc (\<lambda>row. d_createdAt (fst row))
             (filter (\<lambda>row. d_isActive (fst row) = Some True)
                (leftJoin (diarias s) (pessoas s) (\<lambda>d p. d_pessoaId d = p_id p))))))"
  by (simp add: getRecentActivities_def Let_def execute_where_order_limit eq_col_True)

lemma getRecentActivities_length: "length (getRecentActivities s) \<le> 5"
  by (simp add: getRecentActivities_eq)

lemma getRecentActivities_sorted:
  "sorted_wrt (\<lambda>a b. at_data b \<le> at_data a) (getRecentActivities s)"
proof -
  have "sorted (map (\<lambda>a. - at_data a) (getRecentActivities s))"
    unfolding getRecentActivities_eq by (rule sorted_sort_key)
  then show ?thesis by (simp add: sorted_map)
qed

subsection \<open>Which condition \<^verbatim>\<open>getPessoas\<close> runs with\<close>

text \<open>
  Each \<^verbatim>\<open>where\<close> replaces the one before, so the query runs with the condition of the
  last filter given, and with the condition on \<^verbatim>\<open>isActive\<close> only when no filter is given.
\<close>

lemma getPessoas_condition:
  "getPessoas s filters =
     sort_desc p_createdAt
       (filter (\<lambda>r.
          if truthy_string (opt_field f_tipoPessoa filters)
            then p_tipoPessoa r = the (opt_field f_tipoPessoa filters)
          else if truthy_string (opt_field f_cpf filters)
            then p_cpf r = the (opt_field f_cpf filters)
          else if truthy_string (opt_field f_nome filters)
            then like_match (''%'' @ the (opt_field f_nome filters) @ ''%'') (p_nome r)
          else p_isActive r = Some True) (pessoas s))"
  by (simp add: getPessoas_def Let_def where_q_twice execute_where_order eq_col_True
      like_col_def notNull_def)

lemma getPessoas_no_filter:
  "getPessoas s None
     = sort_desc p_createdAt (filter (\<lambda>r. p_isActive r = Some True) (pessoas s))"
  by (simp add: getPessoas_condition opt_field_def truthy_string_def)

subsection \<open>Dashboard counters\<close>

text \<open>
  Claim C3. \<^verbatim>\<open>getDashboardStats\<close> returns four counts: the persons with
  \<^verbatim>\<open>isActive = true\<close> and \<^verbatim>\<open>tipoPessoa = 'S'\<close>; the active absences that started on or
  before today and have no end date or an end date on or after today; the active
  per-diem requests whose status id is exactly 1; the active weapons whose situation is
  \<^verbatim>\<open>'EM_USO'\<close>. Today is the UTC day of the clock reading. In particular a table of three
  active servidores and two active terceirizados, in any order, gives
  \<^verbatim>\<open>totalServidores = 3\<close>.
\<close>

theorem getDashboardStats_counts:
  "getDashboardStats s now =
     \<lparr>totalServidores =
        length (filter (\<lambda>p. p_isActive p = Some True \<and> p_tipoPessoa p = ''S'') (pessoas s)),
      afastamentosAtivos =
        length (filter (\<lambda>a. a_isActive a = Some True \<and> a_dataInicio a \<le> hoje_of now
                          \<and> (case a_dataFim a of None \<Rightarrow> True | Some e \<Rightarrow> hoje_of now \<le> e))
                  (afastamentos s)),
      diariasPendentes =
        length (filter (\<lambda>d. d_isActive d = Some True \<and> d_statusId d = 1) (diarias s)),
      armamentoEmUso =
        length (filter (\<lambda>w. w_isActive w = Some True \<and> w_situacao w = Some ''EM_USO'')
                  (armamentos s))\<rparr>
   \<and> (mset (map (\<lambda>p. (p_isActive p, p_tipoPessoa p)) (pessoas s))
         = {#(Some True, ''S''), (Some True, ''S''), (Some True, ''S''),
             (Some True, ''T''), (Some True, ''T'')#}
       \<longrightarrow> totalServidores (getDashboardStats s now) = 3)"
proof -
  have counts: "getDashboardStats s now =
     \<lparr>totalServidores =
        length (filter (\<lambda>p. p_isActive p = Some True \<and> p_tipoPessoa p = ''S'') (pessoas s)),
      afastamentosAtivos =
        length (filter (\<lambda>a. a_isActive a = Some True \<and> a_dataInicio a \<le> hoje_of now
                          \<and> (case a_dataFim a of None \<Rightarrow> True | Some e \<Rightarrow> hoje_of now \<le> e))
                  (afastamentos s)),
      diariasPendentes =
        length (filter (\<lambda>d. d_isActive d = Some True \<and> d_statusId d = 1) (diarias s)),
      armamentoEmUso =
        length (filter (\<lambda>w. w_isActive w = Some True \<and> w_situacao w = Some ''EM_USO'')
                  (armamentos s))\<rparr>"
    by (simp add: getDashboardStats_def Let_def count_where and_sql_True eq_col_True
        notNull_def lte_col_def null_or_gte_True)
  have fixture: "totalServidores (getDashboardStats s now) = 3"
    if m: "mset (map (\<lambda>p. (p_isActive p, p_tipoPessoa p)) (pessoas s))
         = {#(Some True, ''S''), (Some True, ''S''), (Some True, ''S''),
             (Some True, ''T''), (Some True, ''T'')#}"
  proof -
    have "totalServidores (getDashboardStats s now)
        = length (filter (\<lambda>p. (\<lambda>c. fst c = Some True \<and> snd c = ''S'')
                             (p_isActive p, p_tipoPessoa p)) (pessoas s))"
      by (simp add: counts)
    also have "\<dots> = size (filter_mset (\<lambda>c. fst c = Some True \<and> snd c = ''S'')
                          (mset (map (\<lambda>p. (p_isActive p, p_tipoPessoa p)) (pessoas s))))"
      by (rule length_filter_mset_map)
    also have "\<dots> = 3"
      by (subst m) simp
    finally show ?thesis .
  qed
  from counts fixture show ?thesis by blast
qed

theorem getDashboardStats_counts_witness:
  "mset (map (\<lambda>p. (p_isActive p, p_tipoPessoa p)) (pessoas fixture_3S_2T))
     = {#(Some True, ''S''), (Some True, ''S''), (Some True, ''S''),
         (Some True, ''T''), (Some True, ''T'')#}
   \<and> totalServidores (getDashboardStats fixture_3S_2T 1700000000000) = 3"
proof -
  have h: "mset (map (\<lambda>p. (p_isActive p, p_tipoPessoa p)) (pessoas fixture_3S_2T))
     = {#(Some True, ''S''), (Some True, ''S''), (Some True, ''S''),
         (Some True, ''T''), (Some True, ''T'')#}"
    by (simp add: fixture_3S_2T_def empty_db_def mk_pessoa_def)
  from getDashboardStats_counts [of fixture_3S_2T 1700000000000] h show ?thesis
    by blast
qed

subsection \<open>Absences: the filter \<^verbatim>\<open>ativo\<close>\<close>

text \<open>
  Claim C9. The parameter \<^verbatim>\<open>ativo\<close> of \<^verbatim>\<open>getAfastamentos\<close> has no effect: with the same
  \<^verbatim>\<open>pessoaId\<close> filter, any two values of \<^verbatim>\<open>ativo\<close> (true, false or absent) give the same
  list.
\<close>

theorem getAfastamentos_ignores_ativo:
  "getAfastamentos s (Some \<lparr>f_pessoaId = p, f_ativo = a\<rparr>)
     = getAfastamentos s (Some \<lparr>f_pessoaId = p, f_ativo = b\<rparr>)"
  by (simp add: getAfastamentos_def opt_field_def Let_def)

subsection \<open>Listing persons\<close>

text \<open>
  Claim C1 says that \<^verbatim>\<open>getPessoas\<close> never returns a person whose \<^verbatim>\<open>isActive\<close> is not
  true. With a name filter the builder's second \<^verbatim>\<open>where\<close> replaces the condition on
  \<^verbatim>\<open>isActive\<close>: on a table that holds one soft-deleted Ana, the filter \<^verbatim>\<open>{nome: "Ana"}\<close>
  returns her.
\<close>

theorem getPessoas_nome_returns_inactive:
  "getPessoas db_ana_inativa (Some \<lparr>f_nome = Some ''Ana'', f_cpf = None, f_tipoPessoa = None\<rparr>)
     = [ana_inativa]
   \<and> p_isActive ana_inativa = Some False"
  by (simp add: getPessoas_def db_ana_inativa_def ana_inativa_def empty_db_def mk_pessoa_def
      opt_field_def truthy_string_def execute_def where_q_def select_from_def orderBy_desc_def
      like_col_def eq_col_def notNull_def sort_desc_def)

text \<open>
  Claim C4 says that \<^verbatim>\<open>getPessoas\<close> keeps the active persons that meet every filter
  given. Of several filters only the last \<^verbatim>\<open>where\<close> is in force: with
  \<^verbatim>\<open>{nome: "Ana", tipoPessoa: "S"}\<close> the result holds every servidor, here also Bruno,
  who is soft-deleted and whose name does not contain "Ana".
\<close>

theorem getPessoas_last_filter_only:
  "map p_nome (getPessoas db_ana_bruno
      (Some \<lparr>f_nome = Some ''Ana'', f_cpf = None, f_tipoPessoa = Some ''S''\<rparr>))
     = [''Bruno'', ''Ana'']
   \<and> map p_isActive (getPessoas db_ana_bruno
      (Some \<lparr>f_nome = Some ''Ana'', f_cpf = None, f_tipoPessoa = Some ''S''\<rparr>))
     = [Some False, Some True]"
  by (simp add: getPessoas_def db_ana_bruno_def empty_db_def mk_pessoa_def
      opt_field_def truthy_string_def execute_def where_q_def select_from_def orderBy_desc_def
      like_col_def eq_col_def notNull_def sort_desc_def)

subsection \<open>POST /api/pessoas with a cpf that is taken\<close>

text \<open>
  Claim C2 says that a create request whose cpf some stored person has is answered with
  the duplicate error, status 400, and leaves the stored persons as they were. The
  handler looks for the cpf with \<^verbatim>\<open>getPessoaByCpf\<close>, which sees active persons only. When
  the one holder is soft-deleted the request goes on to the insert, and the answer is
  not 400: on the store with the soft-deleted Ana, a payload with her cpf gets status 500.
\<close>

theorem post_pessoas_soft_deleted_holder:
  "ana_inativa \<in> set (pessoas db_ana_inativa)
   \<and> p_cpf ana_inativa = i_cpf bia_cpf_12345678901
   \<and> res_status (fst (post_pessoas db_ana_inativa 99 (Parsed bia_cpf_12345678901))) = 500"
  by (simp add: post_pessoas_def getPessoaByCpf_def createPessoa_def new_pessoa_def Let_def
      first_row_def execute_where and_sql_True eq_col_True notNull_def
      db_ana_inativa_def ana_inativa_def empty_db_def mk_pessoa_def bia_cpf_12345678901_def)

text \<open>
  Claim C2, amended. Whenever some stored person, active or not, has the payload's cpf,
  the request leaves the stored persons unchanged; and when an active person has it, the
  answer is status 400 with the message \<open>msg_cpf_cadastrado\<close> and the store
  is untouched.
\<close>

theorem post_pessoas_duplicate_cpf:
  "(\<exists>p\<in>set (pessoas s). p_cpf p = i_cpf v)
     \<longrightarrow> pessoas (snd (post_pessoas s now (Parsed v))) = pessoas s
         \<and> ((\<exists>p\<in>set (pessoas s). p_cpf p = i_cpf v \<and> p_isActive p = Some True)
              \<longrightarrow> post_pessoas s now (Parsed v)
                    = (\<lparr>res_status = 400, res_body = Message msg_cpf_cadastrado\<rparr>, s))"
proof (intro impI conjI)
  assume held: "\<exists>p\<in>set (pessoas s). p_cpf p = i_cpf v"
  then have "i_cpf v \<in> p_cpf ` set (pessoas s)" by force
  then have "pessoas (snd (createPessoa s now v)) = pessoas s"
    by (rule createPessoa_rows_unchanged_if_cpf)
  then show "pessoas (snd (post_pessoas s now (Parsed v))) = pessoas s"
    by (auto simp: post_pessoas_def split: option.splits prod.splits sum.splits)
next
  assume "\<exists>p\<in>set (pessoas s). p_cpf p = i_cpf v \<and> p_isActive p = Some True"
  then have "getPessoaByCpf s (i_cpf v) \<noteq> None"
    by (auto simp: getPessoaByCpf_None_iff list_ex_iff)
  then show "post_pessoas s now (Parsed v)
                    = (\<lparr>res_status = 400, res_body = Message msg_cpf_cadastrado\<rparr>, s)"
    by (auto simp: post_pessoas_def split: option.splits)
qed

theorem post_pessoas_duplicate_cpf_witness:
  "pessoas (snd (post_pessoas fixture_3S_2T 99 (Parsed bia_cpf_00000000001)))
     = pessoas fixture_3S_2T
   \<and> post_pessoas fixture_3S_2T 99 (Parsed bia_cpf_00000000001)
     = (\<lparr>res_status = 400, res_body = Message msg_cpf_cadastrado\<rparr>, fixture_3S_2T)"
proof -
  have h: "\<exists>p\<in>set (pessoas fixture_3S_2T).
             p_cpf p = i_cpf bia_cpf_00000000001 \<and> p_isActive p = Some True"
    by (simp add: fixture_3S_2T_def empty_db_def mk_pessoa_def bia_cpf_00000000001_def)
  then have h': "\<exists>p\<in>set (pessoas fixture_3S_2T). p_cpf p = i_cpf bia_cpf_00000000001"
    by blast
  from post_pessoas_duplicate_cpf [of fixture_3S_2T bia_cpf_00000000001 99] h h'
  show ?thesis by blast
qed

subsection \<open>Soft delete of a person\<close>

text \<open>
  Claim C5 says that \<^verbatim>\<open>deletePessoa\<close> is idempotent: a second \<^verbatim>\<open>deletePessoa(id)\<close> leaves
  the state unchanged. Every call writes \<^verbatim>\<open>updatedAt: new Date()\<close>, so a second delete at
  a later clock reading changes the row once more: deleting person 1 at time 100 and
  again at time 200 gives a state other than the one after the first delete.
\<close>

theorem deletePessoa_twice_changes_state:
  "deletePessoa (deletePessoa fixture_3S_2T 100 1) 200 1 \<noteq> deletePessoa fixture_3S_2T 100 1"
  by (simp add: deletePessoa_def fixture_3S_2T_def empty_db_def mk_pessoa_def)

text \<open>
  Claim C5, amended. For every id present in the store, \<^verbatim>\<open>deletePessoa(id)\<close> removes no
  row (the ids of the table are the same, in the same order), leaves the row of that id
  with \<^verbatim>\<open>isActive = false\<close>, and \<^verbatim>\<open>getPessoaById(id)\<close> then finds nothing. A second
  \<^verbatim>\<open>deletePessoa(id)\<close> changes nothing but \<^verbatim>\<open>updatedAt\<close> of that row, which becomes the
  time of the second call.
\<close>

theorem deletePessoa_soft:
  "i \<in> p_id ` set (pessoas s) \<longrightarrow>
     map p_id (pessoas (deletePessoa s now i)) = map p_id (pessoas s)
     \<and> list_ex (\<lambda>r. p_id r = i \<and> p_isActive r = Some False) (pessoas (deletePessoa s now i))
     \<and> getPessoaById (deletePessoa s now i) i = None
     \<and> deletePessoa (deletePessoa s now i) now' i
         = (deletePessoa s now i)
             \<lparr>pessoas := map (\<lambda>r. if p_id r = i then r\<lparr>p_updatedAt := now'\<rparr> else r)
                            (pessoas (deletePessoa s now i))\<rparr>"
proof (intro impI conjI)
  assume "i \<in> p_id ` set (pessoas s)"
  then show "list_ex (\<lambda>r. p_id r = i \<and> p_isActive r = Some False)
               (pessoas (deletePessoa s now i))"
    by (simp add: deletePessoa_def deletePessoa_row_inactive)
next
  show "deletePessoa (deletePessoa s now i) now' i
         = (deletePessoa s now i)
             \<lparr>pessoas := map (\<lambda>r. if p_id r = i then r\<lparr>p_updatedAt := now'\<rparr> else r)
                            (pessoas (deletePessoa s now i))\<rparr>"
    by (simp add: deletePessoa_def comp_def cong: if_cong)
qed (simp_all add: deletePessoa_ids getPessoaById_deletePessoa)

theorem deletePessoa_soft_witness:
  "1 \<in> p_id ` set (pessoas fixture_3S_2T)
   \<and> map p_id (pessoas (deletePessoa fixture_3S_2T 100 1)) = [1, 2, 3, 4, 5]
   \<and> list_ex (\<lambda>r. p_id r = 1 \<and> p_isActive r = Some False)
        (pessoas (deletePessoa fixture_3S_2T 100 1))
   \<and> getPessoaById (deletePessoa fixture_3S_2T 100 1) 1 = None"
proof -
  have h: "1 \<in> p_id ` set (pessoas fixture_3S_2T)"
    by (simp add: fixture_3S_2T_def empty_db_def mk_pessoa_def)
  have ids: "map p_id (pessoas fixture_3S_2T) = [1, 2, 3, 4, 5]"
    by (simp add: fixture_3S_2T_def empty_db_def mk_pessoa_def)
  from deletePessoa_soft [of 1 fixture_3S_2T 100 200] h ids show ?thesis
    by simp
qed

subsection \<open>Updating a person: \<^verbatim>\<open>updatedAt\<close> and the missing id\<close>




subsection \<open>Create, then look up by cpf\<close>




subsection \<open>Updating a soft-deleted person\<close>




subsection \<open>Recent activities\<close>

text \<open>
  Claim C7. For every database state \<^verbatim>\<open>getRecentActivities\<close> returns at most five
  entries, sorted by timestamp descending; they are the entries \<^verbatim>\<open>pessoa_criada\<close> of the
  three most recently created active persons and the entries \<^verbatim>\<open>diaria_criada\<close> of the two
  most recently created active per-diem requests, each with the person its \<^verbatim>\<open>pessoaId\<close>
  names, if there is one. "Most recent" reads: the active rows split into the chosen
  ones, as many as the limit or all of them, and the rest, and no row of the rest was
  created after a chosen one. The database states are the stores in which \<^verbatim>\<open>pessoas.id\<close>
  is a key.
\<close>

theorem getRecentActivities_feed:
  "length (getRecentActivities s) \<le> 5
   \<and> sorted_wrt (\<lambda>a b. at_data b \<le> at_data a) (getRecentActivities s)
   \<and> (db_ok s \<longrightarrow>
        (\<exists>ps ps' ds ds'.
           mset (ps @ ps') = mset (filter (\<lambda>p. p_isActive p = Some True) (pessoas s))
           \<and> length ps = min 3 (length (ps @ ps'))
           \<and> (\<forall>p\<in>set ps. \<forall>q\<in>set ps'. p_createdAt q \<le> p_createdAt p)
           \<and> mset (ds @ ds') = mset (filter (\<lambda>d. d_isActive d = Some True) (diarias s))
           \<and> length ds = min 2 (length (ds @ ds'))
           \<and> (\<forall>d\<in>set ds. \<forall>e\<in>set ds'. d_createdAt e \<le> d_createdAt d)
           \<and> mset (getRecentActivities s)
               = mset (map pessoa_criada ps
                       @ map (\<lambda>d. diaria_criada
                                     (d, find (\<lambda>p. p_id p = d_pessoaId d) (pessoas s))) ds)))"
proof (intro conjI impI)
  assume ok: "db_ok s"
  let ?P = "sort_desc p_createdAt (filter (\<lambda>p. p_isActive p = Some True) (pessoas s))"
  let ?D = "sort_desc d_createdAt (filter (\<lambda>d. d_isActive d = Some True) (diarias s))"
  let ?g = "\<lambda>d. (d, find (\<lambda>p. p_id p = d_pessoaId d) (pessoas s))"
  from ok have join: "leftJoin (diarias s) (pessoas s) (\<lambda>d p. d_pessoaId d = p_id p)
      = map ?g (diarias s)"
    by (intro leftJoin_pessoas) (simp add: db_ok_def)
  have rows: "take 2 (sort_desc (\<lambda>row. d_createdAt (fst row))
             (filter (\<lambda>row. d_isActive (fst row) = Some True) (map ?g (diarias s))))
      = map ?g (take 2 ?D)"
    by (simp add: filter_map comp_def sort_desc_map take_map)
  have feed: "mset (getRecentActivities s)
      = mset (map pessoa_criada (take 3 ?P) @ map (\<lambda>d. diaria_criada (?g d)) (take 2 ?D))"
    by (simp add: getRecentActivities_eq join rows comp_def del: mset_map)
  have p: "mset (take 3 ?P @ drop 3 ?P)
       = mset (filter (\<lambda>p. p_isActive p = Some True) (pessoas s))
     \<and> length (take 3 ?P) = min 3 (length (take 3 ?P @ drop 3 ?P))
     \<and> (\<forall>p\<in>set (take 3 ?P). \<forall>q\<in>set (drop 3 ?P). p_createdAt q \<le> p_createdAt p)"
    using most_recent_take [of 3 p_createdAt "filter (\<lambda>p. p_isActive p = Some True) (pessoas s)"]
    by (simp add: length_sort_desc min.commute)
  have d: "mset (take 2 ?D @ drop 2 ?D)
       = mset (filter (\<lambda>d. d_isActive d = Some True) (diarias s))
     \<and> length (take 2 ?D) = min 2 (length (take 2 ?D @ drop 2 ?D))
     \<and> (\<forall>d\<in>set (take 2 ?D). \<forall>e\<in>set (drop 2 ?D). d_createdAt e \<le> d_createdAt d)"
    using most_recent_take [of 2 d_createdAt "filter (\<lambda>d. d_isActive d = Some True) (diarias s)"]
    by (simp add: length_sort_desc min.commute)
  from p d feed
  show "\<exists>ps ps' ds ds'.
           mset (ps @ ps') = mset (filter (\<lambda>p. p_isActive p = Some True) (pessoas s))
           \<and> length ps = min 3 (length (ps @ ps'))
           \<and> (\<forall>p\<in>set ps. \<forall>q\<in>set ps'. p_createdAt q \<le> p_createdAt p)
           \<and> mset (ds @ ds') = mset (filter (\<lambda>d. d_isActive d = Some True) (diarias s))
           \<and> length ds = min 2 (length (ds @ ds'))
           \<and> (\<forall>d\<in>set ds. \<forall>e\<in>set ds'. d_createdAt e \<le> d_createdAt d)
           \<and> mset (getRecentActivities s)
               = mset (map pessoa_criada ps
                       @ map (\<lambda>d. diaria_criada
                                     (d, find (\<lambda>p. p_id p = d_pessoaId d) (pessoas s))) ds)"
    by (intro exI [where x = "take 3 ?P"] exI [where x = "drop 3 ?P"]
        exI [where x = "take 2 ?D"] exI [where x = "drop 2 ?D"]) blast
qed (rule getRecentActivities_length getRecentActivities_sorted)+

theorem getRecentActivities_feed_witness:
  "db_ok db_feed
   \<and> map (\<lambda>a. (at_tipo a, at_id a, at_data a, at_pessoaNome a)) (getRecentActivities db_feed)
       = [(''pessoa_criada'', 5, 50, Some ''Elisa''), (''diaria_criada'', 2, 45, Some ''Bruno''),
          (''pessoa_criada'', 4, 40, Some ''Davi''), (''diaria_criada'', 1, 35, Some ''Ana''),
          (''pessoa_criada'', 3, 30, Some ''Carla'')]
   \<and> length (getRecentActivities db_feed) \<le> 5
   \<and> sorted_wrt (\<lambda>a b. at_data b \<le> at_data a) (getRecentActivities db_feed)"
proof -
  have h: "db_ok db_feed"
    by (simp add: db_ok_def db_feed_def fixture_3S_2T_def empty_db_def mk_pessoa_def)
  have e: "map (\<lambda>a. (at_tipo a, at_id a, at_data a, at_pessoaNome a))
             (getRecentActivities db_feed)
       = [(''pessoa_criada'', 5, 50, Some ''Elisa''), (''diaria_criada'', 2, 45, Some ''Bruno''),
          (''pessoa_criada'', 4, 40, Some ''Davi''), (''diaria_criada'', 1, 35, Some ''Ana''),
          (''pessoa_criada'', 3, 30, Some ''Carla'')]"
    by (simp add: getRecentActivities_eq db_feed_def fixture_3S_2T_def empty_db_def
        mk_pessoa_def mk_diaria_def sort_desc_def leftJoin_def pessoa_criada_def
        diaria_criada_def)
  from getRecentActivities_feed [of db_feed] h e show ?thesis
    by blast
qed

end
